theory Spec2Isabelle
  imports Main
begin

section \<open>The REST server of mem0 (server/main.py)\<close>

text \<open>
  The module is a FastAPI facade over the external \<open>mem0.Memory\<close> engine. This theory
  embeds its decision logic: the access guard \<open>verify_api_key\<close>, the identifier checks
  of the handlers, the construction of the keyword arguments handed to the engine, and
  the handling of the engine's exceptions.
\<close>

subsection \<open>Python values, truthiness and exceptions\<close>

text \<open>
  JSON-like Python values, as they occur in request bodies and keyword arguments. A
  \<open>dict\<close> is an association list in insertion order.
\<close>

datatype pyval =
    PNone
  | PStr string
  | PInt int
  | PBool bool
  | PList "pyval list"
  | PDict "(string \<times> pyval) list"

type_synonym pydict = "(string \<times> pyval) list"

text \<open>
  The exceptions the module can end a call with: FastAPI's \<open>HTTPException\<close> with its
  status code and detail, and any other Python exception, kept as its message
  \<open>str(e)\<close>. The latter is not caught by the module when it escapes a handler.
\<close>

datatype py_exception =
    HTTPException (status_code: nat) (detail: string)
  | Exception string

text \<open>Truthiness of an \<open>Optional[str]\<close>: \<open>None\<close> and the empty string are falsy.\<close>

fun truthy :: "string option \<Rightarrow> bool" where
  "truthy None = False"
| "truthy (Some s) = (s \<noteq> [])"

text \<open>Python's \<open>any\<close> over a list of \<open>Optional[str]\<close>.\<close>

definition any_truthy :: "string option list \<Rightarrow> bool" where
  "any_truthy xs = list_ex truthy xs"

subsection \<open>Requests and credentials\<close>

text \<open>
  Starlette's \<open>request.client\<close> is an address (host, port) or \<open>None\<close>;
  \<open>request.client.host\<close> on \<open>None\<close> raises \<open>AttributeError\<close>.
\<close>

record address =
  host :: string
  port :: nat

record request =
  client :: "address option"

record HTTPAuthorizationCredentials =
  scheme :: string
  credentials :: string

subsection \<open>Security\<close>

text \<open>The literal list of dashboard container addresses in \<open>verify_api_key\<close>.\<close>

definition dashboard_ips :: "string list" where
  "dashboard_ips = [''10.0.1.151'', ''172.23.0.5'']"

text \<open>
  \<open>verify_api_key\<close>, with the module constant \<open>MEM0_API_KEY\<close>
  (\<open>os.environ.get("MEM0_API_KEY")\<close>, an \<open>Optional[str]\<close>) as first argument. It
  returns \<open>None\<close> for a dashboard address and the presented token otherwise.
\<close>

definition verify_api_key ::
  "string option \<Rightarrow> request \<Rightarrow> HTTPAuthorizationCredentials option
     \<Rightarrow> py_exception + string option" where
  "verify_api_key MEM0_API_KEY req creds =
     (case client req of
        None \<Rightarrow> Inl (Exception ''AttributeError'')
      | Some c \<Rightarrow>
          if host c \<in> set dashboard_ips then Inr None
          else if \<not> truthy MEM0_API_KEY then
            Inl (HTTPException 500 ''API key not configured'')
          else
            (case creds of
               None \<Rightarrow> Inl (HTTPException 403 ''Invalid API key'')
             | Some cr \<Rightarrow>
                 if Some (credentials cr) \<noteq> MEM0_API_KEY
                 then Inl (HTTPException 403 ''Invalid API key'')
                 else Inr (Some (credentials cr))))"

subsection \<open>Models\<close>

text \<open>The pydantic request models, with their fields in declaration order.\<close>

record Message =
  role :: string
  content :: string

record MemoryCreate =
  messages :: "Message list"
  user_id :: "string option"
  agent_id :: "string option"
  run_id :: "string option"
  metadata :: "pydict option"

record MemoryFilter =
  user_id :: "string option"
  agent_id :: "string option"
  run_id :: "string option"
  filters :: "pydict option"

record SearchRequest =
  query :: string
  user_id :: "string option"
  run_id :: "string option"
  agent_id :: "string option"
  filters :: "pydict option"

subsection \<open>Helpers\<close>

text \<open>
  \<open>safe_dump\<close> (\<open>model_dump\<close>) turns a model into a dict of its fields, in declaration
  order; an \<open>Optional\<close> field that is \<open>None\<close> is dumped as \<open>None\<close>.
\<close>

definition dump_str :: "string option \<Rightarrow> pyval" where
  "dump_str x = (case x of None \<Rightarrow> PNone | Some s \<Rightarrow> PStr s)"

definition dump_dict :: "pydict option \<Rightarrow> pyval" where
  "dump_dict x = (case x of None \<Rightarrow> PNone | Some d \<Rightarrow> PDict d)"

definition safe_dump_Message :: "Message \<Rightarrow> pydict" where
  "safe_dump_Message m = [(''role'', PStr (role m)), (''content'', PStr (content m))]"

definition safe_dump_MemoryCreate :: "MemoryCreate \<Rightarrow> pydict" where
  "safe_dump_MemoryCreate m =
     [(''messages'', PList (map (\<lambda>x. PDict (safe_dump_Message x)) (messages m))),
      (''user_id'', dump_str (MemoryCreate.user_id m)),
      (''agent_id'', dump_str (MemoryCreate.agent_id m)),
      (''run_id'', dump_str (MemoryCreate.run_id m)),
      (''metadata'', dump_dict (metadata m))]"

definition safe_dump_SearchRequest :: "SearchRequest \<Rightarrow> pydict" where
  "safe_dump_SearchRequest m =
     [(''query'', PStr (query m)),
      (''user_id'', dump_str (SearchRequest.user_id m)),
      (''run_id'', dump_str (SearchRequest.run_id m)),
      (''agent_id'', dump_str (SearchRequest.agent_id m)),
      (''filters'', dump_dict (SearchRequest.filters m))]"

text \<open>The test \<open>v is not None\<close> of the dict comprehensions.\<close>

fun is_not_None :: "pyval \<Rightarrow> bool" where
  "is_not_None PNone = False"
| "is_not_None _ = True"

text \<open>
  The comprehension of \<open>get_all_memories\<close>, \<open>filter_memories_post\<close> and
  \<open>delete_all_memories\<close>:
  \<^verbatim>\<open>{k: v for k, v in {"user_id": user_id, "run_id": run_id, "agent_id": agent_id}.items()
     if v is not None}\<close>
\<close>

definition identifier_params ::
  "string option \<Rightarrow> string option \<Rightarrow> string option \<Rightarrow> pydict" where
  "identifier_params user run agent =
     filter (\<lambda>(k, v). is_not_None v)
       [(''user_id'', dump_str user), (''run_id'', dump_str run), (''agent_id'', dump_str agent)]"

subsection \<open>The Memory engine and the server state\<close>

text \<open>
  The engine (\<open>mem0.Memory\<close>) is external. Its operations, as the module calls them:
  the class method \<open>from_config\<close> and nine instance methods, each with the arguments
  the module passes (keyword arguments as a dict).
\<close>

datatype engine_call =
    Memory_from_config pydict
  | Memory_add "pydict list" pydict
  | Memory_get_all pydict
  | Memory_get string
  | Memory_search string pydict
  | Memory_update string pydict
  | Memory_history string
  | Memory_delete string
  | Memory_delete_all pydict
  | Memory_reset

text \<open>
  What the engine does is a parameter: \<open>'m\<close> is the type of engine instances and
  \<open>'w\<close> the state of the engine's backing services. Either operation returns a value
  or raises an exception, kept as its message \<open>str(e)\<close>, and may change the backing
  state on the way.
\<close>

record ('m, 'w) engine =
  construct :: "pydict \<Rightarrow> 'w \<Rightarrow> (string + 'm) \<times> 'w"
  perform :: "'m \<Rightarrow> engine_call \<Rightarrow> 'w \<Rightarrow> (string + pyval) \<times> 'w"

text \<open>
  The state of the process: the module global \<open>MEMORY_INSTANCE\<close>, the backing
  services, and the list of engine operations invoked so far, oldest first.
\<close>

record ('m, 'w) server =
  MEMORY_INSTANCE :: 'm
  world :: 'w
  calls :: "engine_call list"

text \<open>\<open>Memory.from_config(config)\<close>.\<close>

definition from_config ::
  "('m, 'w) engine \<Rightarrow> pydict \<Rightarrow> ('m, 'w) server \<Rightarrow> (string + 'm) \<times> ('m, 'w) server" where
  "from_config E config s =
     (case construct E config (world s) of
        (r, w') \<Rightarrow> (r, s\<lparr>world := w', calls := calls s @ [Memory_from_config config]\<rparr>))"

text \<open>\<open>MEMORY_INSTANCE.op(...)\<close>: the global is read when the call is made.\<close>

definition invoke ::
  "('m, 'w) engine \<Rightarrow> engine_call \<Rightarrow> ('m, 'w) server \<Rightarrow> (string + pyval) \<times> ('m, 'w) server" where
  "invoke E c s =
     (case perform E (MEMORY_INSTANCE s) c (world s) of
        (r, w') \<Rightarrow> (r, s\<lparr>world := w', calls := calls s @ [c]\<rparr>))"

text \<open>What a handler returns: a plain value, serialised by FastAPI, or a \<open>JSONResponse\<close>.\<close>

datatype response = Plain pyval | JSONResponse pyval

text \<open>
  The block every handler but \<open>set_config\<close> wraps its engine call in:
  \<^verbatim>\<open>try: r = MEMORY_INSTANCE.op(...); return k(r)
  except Exception as e: raise HTTPException(status_code=500, detail=str(e))\<close>
\<close>

definition try_engine ::
  "('m, 'w) engine \<Rightarrow> engine_call \<Rightarrow> (pyval \<Rightarrow> response) \<Rightarrow> ('m, 'w) server
     \<Rightarrow> (py_exception + response) \<times> ('m, 'w) server" where
  "try_engine E c k s =
     (case invoke E c s of
        (Inl e, s') \<Rightarrow> (Inl (HTTPException 500 e), s')
      | (Inr v, s') \<Rightarrow> (Inr (k v), s'))"

definition message :: "string \<Rightarrow> response" where
  "message m = Plain (PDict [(''message'', PStr m)])"

subsection \<open>The handlers of the API router\<close>

text \<open>
  Every handler takes the engine's behaviour \<open>E\<close> and the module constant
  \<open>MEM0_API_KEY\<close> first, then the arguments FastAPI calls it with, and the state of
  the process; it gives the value it returns or the exception it ends with, and the
  state afterwards. The \<open>Security(HTTPBearer())\<close> dependency that produces the
  \<open>credentials\<close> argument is FastAPI's own; the handlers are embedded from the point
  where they are called. Logging is left out.
\<close>

type_synonym ('m, 'w) handled = "(py_exception + response) \<times> ('m, 'w) server"

text \<open>
  \<open>set_config\<close>: the call of \<open>Memory.from_config\<close> stands outside any \<open>try\<close>, so its
  exception leaves the handler as it is; the global is assigned only when the call
  has returned.
\<close>

definition set_config ::
  "('m, 'w) engine \<Rightarrow> string option \<Rightarrow> request \<Rightarrow> pydict
     \<Rightarrow> HTTPAuthorizationCredentials option \<Rightarrow> ('m, 'w) server \<Rightarrow> ('m, 'w) handled" where
  "set_config E MEM0_API_KEY req config creds s =
     (case verify_api_key MEM0_API_KEY req creds of
        Inl e \<Rightarrow> (Inl e, s)
      | Inr _ \<Rightarrow>
          (case from_config E config s of
             (Inl e, s') \<Rightarrow> (Inl (Exception e), s')
           | (Inr m, s') \<Rightarrow>
               (Inr (message ''Configuration set successfully''),
                s'\<lparr>MEMORY_INSTANCE := m\<rparr>)))"

definition add_memory ::
  "('m, 'w) engine \<Rightarrow> string option \<Rightarrow> request \<Rightarrow> MemoryCreate
     \<Rightarrow> HTTPAuthorizationCredentials option \<Rightarrow> ('m, 'w) server \<Rightarrow> ('m, 'w) handled" where
  "add_memory E MEM0_API_KEY req memory_create creds s =
     (case verify_api_key MEM0_API_KEY req creds of
        Inl e \<Rightarrow> (Inl e, s)
      | Inr _ \<Rightarrow>
          if \<not> any_truthy [MemoryCreate.user_id memory_create,
                            MemoryCreate.agent_id memory_create,
                            MemoryCreate.run_id memory_create]
          then (Inl (HTTPException 400
                  ''At least one identifier (user_id, agent_id, run_id) is required.''), s)
          else
            let data = safe_dump_MemoryCreate memory_create;
                params = filter (\<lambda>(k, v). is_not_None v \<and> k \<noteq> ''messages'') data
            in try_engine E
                 (Memory_add (map safe_dump_Message (messages memory_create)) params)
                 JSONResponse s)"

definition filter_memories_post ::
  "('m, 'w) engine \<Rightarrow> string option \<Rightarrow> request \<Rightarrow> MemoryFilter option
     \<Rightarrow> HTTPAuthorizationCredentials option \<Rightarrow> ('m, 'w) server \<Rightarrow> ('m, 'w) handled" where
  "filter_memories_post E MEM0_API_KEY req filter_req creds s =
     (case verify_api_key MEM0_API_KEY req creds of
        Inl e \<Rightarrow> (Inl e, s)
      | Inr _ \<Rightarrow>
          let (user, agent, run) =
                (case filter_req of
                   Some f \<Rightarrow> (MemoryFilter.user_id f, MemoryFilter.agent_id f,
                              MemoryFilter.run_id f)
                 | None \<Rightarrow> (None, None, None))
          in if \<not> any_truthy [user, agent, run]
             then (Inl (HTTPException 400 ''At least one identifier is required.''), s)
             else try_engine E (Memory_get_all (identifier_params user run agent)) Plain s)"

definition get_all_memories ::
  "('m, 'w) engine \<Rightarrow> string option \<Rightarrow> request
     \<Rightarrow> string option \<Rightarrow> string option \<Rightarrow> string option
     \<Rightarrow> HTTPAuthorizationCredentials option \<Rightarrow> ('m, 'w) server \<Rightarrow> ('m, 'w) handled" where
  "get_all_memories E MEM0_API_KEY req user run agent creds s =
     (case verify_api_key MEM0_API_KEY req creds of
        Inl e \<Rightarrow> (Inl e, s)
      | Inr _ \<Rightarrow>
          if \<not> any_truthy [user, run, agent]
          then (Inl (HTTPException 400 ''At least one identifier is required.''), s)
          else try_engine E (Memory_get_all (identifier_params user run agent)) Plain s)"

definition get_memory ::
  "('m, 'w) engine \<Rightarrow> string option \<Rightarrow> request \<Rightarrow> string
     \<Rightarrow> HTTPAuthorizationCredentials option \<Rightarrow> ('m, 'w) server \<Rightarrow> ('m, 'w) handled" where
  "get_memory E MEM0_API_KEY req memory_id creds s =
     (case verify_api_key MEM0_API_KEY req creds of
        Inl e \<Rightarrow> (Inl e, s)
      | Inr _ \<Rightarrow> try_engine E (Memory_get memory_id) Plain s)"

definition search_memories ::
  "('m, 'w) engine \<Rightarrow> string option \<Rightarrow> request \<Rightarrow> SearchRequest
     \<Rightarrow> HTTPAuthorizationCredentials option \<Rightarrow> ('m, 'w) server \<Rightarrow> ('m, 'w) handled" where
  "search_memories E MEM0_API_KEY req search_req creds s =
     (case verify_api_key MEM0_API_KEY req creds of
        Inl e \<Rightarrow> (Inl e, s)
      | Inr _ \<Rightarrow>
          let params = filter (\<lambda>(k, v). is_not_None v \<and> k \<noteq> ''query'')
                         (safe_dump_SearchRequest search_req)
          in try_engine E (Memory_search (query search_req) params) Plain s)"

definition update_memory ::
  "('m, 'w) engine \<Rightarrow> string option \<Rightarrow> request \<Rightarrow> string \<Rightarrow> pydict
     \<Rightarrow> HTTPAuthorizationCredentials option \<Rightarrow> ('m, 'w) server \<Rightarrow> ('m, 'w) handled" where
  "update_memory E MEM0_API_KEY req memory_id updated_memory creds s =
     (case verify_api_key MEM0_API_KEY req creds of
        Inl e \<Rightarrow> (Inl e, s)
      | Inr _ \<Rightarrow> try_engine E (Memory_update memory_id updated_memory) Plain s)"

definition memory_history ::
  "('m, 'w) engine \<Rightarrow> string option \<Rightarrow> request \<Rightarrow> string
     \<Rightarrow> HTTPAuthorizationCredentials option \<Rightarrow> ('m, 'w) server \<Rightarrow> ('m, 'w) handled" where
  "memory_history E MEM0_API_KEY req memory_id creds s =
     (case verify_api_key MEM0_API_KEY req creds of
        Inl e \<Rightarrow> (Inl e, s)
      | Inr _ \<Rightarrow> try_engine E (Memory_history memory_id) Plain s)"

definition delete_memory ::
  "('m, 'w) engine \<Rightarrow> string option \<Rightarrow> request \<Rightarrow> string
     \<Rightarrow> HTTPAuthorizationCredentials option \<Rightarrow> ('m, 'w) server \<Rightarrow> ('m, 'w) handled" where
  "delete_memory E MEM0_API_KEY req memory_id creds s =
     (case verify_api_key MEM0_API_KEY req creds of
        Inl e \<Rightarrow> (Inl e, s)
      | Inr _ \<Rightarrow>
          try_engine E (Memory_delete memory_id)
            (\<lambda>_. message ''Memory deleted successfully'') s)"

definition delete_all_memories ::
  "('m, 'w) engine \<Rightarrow> string option \<Rightarrow> request
     \<Rightarrow> string option \<Rightarrow> string option \<Rightarrow> string option
     \<Rightarrow> HTTPAuthorizationCredentials option \<Rightarrow> ('m, 'w) server \<Rightarrow> ('m, 'w) handled" where
  "delete_all_memories E MEM0_API_KEY req user run agent creds s =
     (case verify_api_key MEM0_API_KEY req creds of
        Inl e \<Rightarrow> (Inl e, s)
      | Inr _ \<Rightarrow>
          if \<not> any_truthy [user, run, agent]
          then (Inl (HTTPException 400 ''At least one identifier is required.''), s)
          else try_engine E (Memory_delete_all (identifier_params user run agent))
                 (\<lambda>_. message ''All relevant memories deleted'') s)"

definition reset_memory ::
  "('m, 'w) engine \<Rightarrow> string option \<Rightarrow> request
     \<Rightarrow> HTTPAuthorizationCredentials option \<Rightarrow> ('m, 'w) server \<Rightarrow> ('m, 'w) handled" where
  "reset_memory E MEM0_API_KEY req creds s =
     (case verify_api_key MEM0_API_KEY req creds of
        Inl e \<Rightarrow> (Inl e, s)
      | Inr _ \<Rightarrow> try_engine E Memory_reset (\<lambda>_. message ''All memories reset'') s)"

subsection \<open>The vocabulary of the specification\<close>

text \<open>
  An identifier is "empty or absent" when it is \<open>None\<close> or the empty string. This
  definition follows the specification's words; the handlers test \<open>not any([...])\<close>.
\<close>

definition empty_or_absent :: "string option \<Rightarrow> bool" where
  "empty_or_absent x = (x = None \<or> x = Some [])"

text \<open>
  "Exactly the optional fields that are non-null are forwarded, with their values
  unchanged": \<open>fs\<close> lists the optional fields of a request by name, each with its value
  or \<open>None\<close>, and \<open>params\<close> are the keyword arguments handed to the engine. This
  definition follows the specification's words as well.
\<close>

definition forwards_exactly :: "(string \<times> pyval option) list \<Rightarrow> pydict \<Rightarrow> bool" where
  "forwards_exactly fs params =
     (params = List.map_filter (\<lambda>(k, v). map_option (Pair k) v) fs)"

subsection \<open>Concrete engines, requests and states\<close>

text \<open>
  Two engines to run the handlers on: one whose every operation returns, and one
  whose every operation raises an exception with the message "boom". Their instances
  are numbered, and their backing state is trivial.
\<close>

definition quiet_engine :: "(nat, unit) engine" where
  "quiet_engine = \<lparr>construct = (\<lambda>config w. (Inr 1, w)), perform = (\<lambda>m c w. (Inr PNone, w))\<rparr>"

definition raising_engine :: "(nat, unit) engine" where
  "raising_engine =
     \<lparr>construct = (\<lambda>config w. (Inl ''boom'', w)), perform = (\<lambda>m c w. (Inl ''boom'', w))\<rparr>"

text \<open>A request from the first dashboard address, and the state of a fresh process.\<close>

definition dashboard_request :: request where
  "dashboard_request = \<lparr>client = Some \<lparr>host = ''10.0.1.151'', port = 5000\<rparr>\<rparr>"

definition started :: "(nat, unit) server" where
  "started = \<lparr>MEMORY_INSTANCE = 0, world = (), calls = []\<rparr>"

section \<open>Auxiliary facts\<close>

subsection \<open>Truthiness in the words of the specification\<close>

lemma truthy_iff: "truthy x = (\<not> empty_or_absent x)"
  by (cases x) (simp_all add: empty_or_absent_def)

lemma any_truthy3:
  "any_truthy [x, y, z] = (\<not> (empty_or_absent x \<and> empty_or_absent y \<and> empty_or_absent z))"
  by (simp add: any_truthy_def truthy_iff)

lemma dashboard_request_allowed: "verify_api_key key dashboard_request creds = Inr None"
  by (simp add: verify_api_key_def dashboard_request_def dashboard_ips_def)

subsection \<open>One engine call, and what becomes of its result\<close>

lemma invoke_calls: "calls (snd (invoke E c s)) = calls s @ [c]"
  by (simp add: invoke_def split: prod.splits)

lemma try_engine_calls: "calls (snd (try_engine E c k s)) = calls s @ [c]"
  using invoke_calls [of E c s]
  by (auto simp add: try_engine_def split: prod.splits sum.splits)

lemma try_engine_not_400: "fst (try_engine E c k s) \<noteq> Inl (HTTPException 400 d)"
  by (simp add: try_engine_def split: prod.splits sum.splits)

lemma try_engine_raises:
  assumes "perform E (MEMORY_INSTANCE s) c (world s) = (Inl e, w')"
  shows "try_engine E c k s
           = (Inl (HTTPException 500 e), s\<lparr>world := w', calls := calls s @ [c]\<rparr>)"
  using assms by (simp add: try_engine_def invoke_def)

lemma try_engine_returns:
  assumes "perform E (MEMORY_INSTANCE s) c (world s) = (Inr v, w')"
  shows "try_engine E c k s = (Inr (k v), s\<lparr>world := w', calls := calls s @ [c]\<rparr>)"
  using assms by (simp add: try_engine_def invoke_def)

subsection \<open>The keyword arguments the comprehensions build\<close>

lemma search_params:
  "forwards_exactly
     [(''user_id'', map_option PStr (SearchRequest.user_id sr)),
      (''run_id'', map_option PStr (SearchRequest.run_id sr)),
      (''agent_id'', map_option PStr (SearchRequest.agent_id sr)),
      (''filters'', map_option PDict (SearchRequest.filters sr))]
     (filter (\<lambda>(k, v). is_not_None v \<and> k \<noteq> ''query'') (safe_dump_SearchRequest sr))"
  by (cases "SearchRequest.user_id sr"; cases "SearchRequest.run_id sr";
      cases "SearchRequest.agent_id sr"; cases "SearchRequest.filters sr")
     (simp_all add: forwards_exactly_def safe_dump_SearchRequest_def dump_str_def
        dump_dict_def)

lemma create_params:
  "forwards_exactly
     [(''user_id'', map_option PStr (MemoryCreate.user_id mc)),
      (''agent_id'', map_option PStr (MemoryCreate.agent_id mc)),
      (''run_id'', map_option PStr (MemoryCreate.run_id mc)),
      (''metadata'', map_option PDict (metadata mc))]
     (filter (\<lambda>(k, v). is_not_None v \<and> k \<noteq> ''messages'') (safe_dump_MemoryCreate mc))"
  by (cases "MemoryCreate.user_id mc"; cases "MemoryCreate.agent_id mc";
      cases "MemoryCreate.run_id mc"; cases "metadata mc")
     (simp_all add: forwards_exactly_def safe_dump_MemoryCreate_def dump_str_def
        dump_dict_def)

lemma identifier_params_forwards:
  "forwards_exactly
     [(''user_id'', map_option PStr u), (''run_id'', map_option PStr r),
      (''agent_id'', map_option PStr a)]
     (identifier_params u r a)"
  by (cases u; cases r; cases a)
     (simp_all add: forwards_exactly_def identifier_params_def dump_str_def)

subsection \<open>The engine calls of the handlers\<close>

lemma add_memory_forwards:
  assumes "verify_api_key key req creds = Inr g"
      and "\<not> (empty_or_absent (MemoryCreate.user_id mc) \<and> empty_or_absent (MemoryCreate.agent_id mc)
              \<and> empty_or_absent (MemoryCreate.run_id mc))"
  shows "\<exists>params.
           calls (snd (add_memory E key req mc creds s))
             = calls s @ [Memory_add (map safe_dump_Message (messages mc)) params]
           \<and> forwards_exactly
               [(''user_id'', map_option PStr (MemoryCreate.user_id mc)),
                (''agent_id'', map_option PStr (MemoryCreate.agent_id mc)),
                (''run_id'', map_option PStr (MemoryCreate.run_id mc)),
                (''metadata'', map_option PDict (metadata mc))] params"
  using assms create_params [of mc]
  by (simp add: add_memory_def any_truthy3 try_engine_calls)

lemma search_memories_forwards:
  assumes "verify_api_key key req creds = Inr g"
  shows "\<exists>params.
           calls (snd (search_memories E key req sr creds s))
             = calls s @ [Memory_search (query sr) params]
           \<and> forwards_exactly
               [(''user_id'', map_option PStr (SearchRequest.user_id sr)),
                (''run_id'', map_option PStr (SearchRequest.run_id sr)),
                (''agent_id'', map_option PStr (SearchRequest.agent_id sr)),
                (''filters'', map_option PDict (SearchRequest.filters sr))] params"
  using assms search_params [of sr]
  by (simp add: search_memories_def try_engine_calls)

lemma filter_memories_post_forwards:
  assumes "verify_api_key key req creds = Inr g"
      and "\<not> (empty_or_absent (MemoryFilter.user_id f) \<and> empty_or_absent (MemoryFilter.agent_id f)
              \<and> empty_or_absent (MemoryFilter.run_id f))"
  shows "\<exists>params.
           calls (snd (filter_memories_post E key req (Some f) creds s))
             = calls s @ [Memory_get_all params]
           \<and> forwards_exactly
               [(''user_id'', map_option PStr (MemoryFilter.user_id f)),
                (''run_id'', map_option PStr (MemoryFilter.run_id f)),
                (''agent_id'', map_option PStr (MemoryFilter.agent_id f))] params"
  using assms
    identifier_params_forwards
      [of "MemoryFilter.user_id f" "MemoryFilter.run_id f" "MemoryFilter.agent_id f"]
  by (simp add: filter_memories_post_def any_truthy3 try_engine_calls)

lemma get_all_memories_forwards:
  assumes "verify_api_key key req creds = Inr g"
      and "\<not> (empty_or_absent u \<and> empty_or_absent a \<and> empty_or_absent r)"
  shows "\<exists>params.
           calls (snd (get_all_memories E key req u r a creds s))
             = calls s @ [Memory_get_all params]
           \<and> forwards_exactly
               [(''user_id'', map_option PStr u), (''run_id'', map_option PStr r),
                (''agent_id'', map_option PStr a)] params"
  using assms identifier_params_forwards [of u r a]
  by (auto simp add: get_all_memories_def any_truthy3 try_engine_calls)

lemma delete_all_memories_forwards:
  assumes "verify_api_key key req creds = Inr g"
      and "\<not> (empty_or_absent u \<and> empty_or_absent a \<and> empty_or_absent r)"
  shows "\<exists>params.
           calls (snd (delete_all_memories E key req u r a creds s))
             = calls s @ [Memory_delete_all params]
           \<and> forwards_exactly
               [(''user_id'', map_option PStr u), (''run_id'', map_option PStr r),
                (''agent_id'', map_option PStr a)] params"
  using assms identifier_params_forwards [of u r a]
  by (auto simp add: delete_all_memories_def any_truthy3 try_engine_calls)

lemma by_id_handlers_one_call:
  assumes "verify_api_key key req creds = Inr g"
  shows "calls (snd (get_memory E key req memory_id creds s)) = calls s @ [Memory_get memory_id]"
    and "calls (snd (update_memory E key req memory_id data creds s))
           = calls s @ [Memory_update memory_id data]"
    and "calls (snd (memory_history E key req memory_id creds s))
           = calls s @ [Memory_history memory_id]"
    and "calls (snd (delete_memory E key req memory_id creds s))
           = calls s @ [Memory_delete memory_id]"
    and "calls (snd (reset_memory E key req creds s)) = calls s @ [Memory_reset]"
  using assms
  by (simp_all add: get_memory_def update_memory_def memory_history_def delete_memory_def
        reset_memory_def try_engine_calls)

lemma set_config_one_call:
  assumes "verify_api_key key req creds = Inr g"
  shows "calls (snd (set_config E key req config creds s))
           = calls s @ [Memory_from_config config]"
  using assms
  by (simp add: set_config_def from_config_def split: prod.splits sum.splits)

text \<open>
  Ten of the eleven handlers turn an exception of the engine into HTTP 500 with the
  exception's message as detail.
\<close>

lemma engine_exception_becomes_500:
  assumes guard: "verify_api_key key req creds = Inr g"
      and ids: "\<not> (empty_or_absent u \<and> empty_or_absent a \<and> empty_or_absent r)"
      and raises: "\<And>c. perform E (MEMORY_INSTANCE s) c (world s) = (Inl e, w')"
  shows "fst (add_memory E key req
                \<lparr>messages = ms, MemoryCreate.user_id = u, MemoryCreate.agent_id = a,
                 MemoryCreate.run_id = r, metadata = md\<rparr> creds s)
           = Inl (HTTPException 500 e)"
    and "fst (filter_memories_post E key req
                (Some \<lparr>MemoryFilter.user_id = u, MemoryFilter.agent_id = a,
                       MemoryFilter.run_id = r, MemoryFilter.filters = fl\<rparr>) creds s)
           = Inl (HTTPException 500 e)"
    and "fst (get_all_memories E key req u r a creds s) = Inl (HTTPException 500 e)"
    and "fst (get_memory E key req memory_id creds s) = Inl (HTTPException 500 e)"
    and "fst (search_memories E key req sr creds s) = Inl (HTTPException 500 e)"
    and "fst (update_memory E key req memory_id data creds s) = Inl (HTTPException 500 e)"
    and "fst (memory_history E key req memory_id creds s) = Inl (HTTPException 500 e)"
    and "fst (delete_memory E key req memory_id creds s) = Inl (HTTPException 500 e)"
    and "fst (delete_all_memories E key req u r a creds s) = Inl (HTTPException 500 e)"
    and "fst (reset_memory E key req creds s) = Inl (HTTPException 500 e)"
  using guard ids
  by (auto simp add: add_memory_def filter_memories_post_def get_all_memories_def
        get_memory_def search_memories_def update_memory_def memory_history_def
        delete_memory_def delete_all_memories_def reset_memory_def any_truthy3
        try_engine_raises [OF raises])

section \<open>Properties of the access guard\<close>

text \<open>
  C1. A request whose caller address is one of the trusted dashboard addresses is
  allowed whatever credential is presented, also when none is, and whatever the
  configured secret is, also when none is: the address check comes first and decides.
\<close>

theorem C1_trusted_origin_allowed:
  assumes "client req = Some c" and "host c \<in> set dashboard_ips"
  shows "verify_api_key key req creds = Inr None"
  using assms by (simp add: verify_api_key_def)

theorem C1_trusted_origin_allowed_witness:
  "''10.0.1.151'' \<in> set dashboard_ips
   \<and> verify_api_key None \<lparr>client = Some \<lparr>host = ''10.0.1.151'', port = 5000\<rparr>\<rparr> None = Inr None
   \<and> verify_api_key (Some ''abc'') \<lparr>client = Some \<lparr>host = ''10.0.1.151'', port = 5000\<rparr>\<rparr>
        (Some \<lparr>scheme = ''Bearer'', credentials = ''xyz''\<rparr>) = Inr None"
proof -
  have h: "''10.0.1.151'' \<in> set dashboard_ips"
    by (simp add: dashboard_ips_def)
  let ?a = "\<lparr>host = ''10.0.1.151'', port = 5000\<rparr>"
  have c: "client \<lparr>client = Some ?a\<rparr> = Some ?a" and i: "host ?a \<in> set dashboard_ips"
    using h by simp_all
  show ?thesis
    using h C1_trusted_origin_allowed [OF c i, of None None]
      C1_trusted_origin_allowed
        [OF c i, of "Some ''abc''" "Some \<lparr>scheme = ''Bearer'', credentials = ''xyz''\<rparr>"]
    by simp
qed

text \<open>
  C2. For a request from an address that is not trusted, when no secret is configured
  (\<open>MEM0_API_KEY\<close> is unset, or set to the empty string, which \<open>not MEM0_API_KEY\<close>
  treats alike), the guard ends with HTTP 500 "API key not configured", whatever
  credential is presented; it never ends with the 403 of an invalid credential.
\<close>

theorem C2_no_secret_is_server_error:
  assumes "client req = Some c" and "host c \<notin> set dashboard_ips" and "\<not> truthy key"
  shows "verify_api_key key req creds = Inl (HTTPException 500 ''API key not configured'')"
  using assms by (simp add: verify_api_key_def)

theorem C2_no_secret_is_server_error_witness:
  "''9.9.9.9'' \<notin> set dashboard_ips \<and> \<not> truthy None
   \<and> verify_api_key None \<lparr>client = Some \<lparr>host = ''9.9.9.9'', port = 80\<rparr>\<rparr>
        (Some \<lparr>scheme = ''Bearer'', credentials = ''abc''\<rparr>)
      = Inl (HTTPException 500 ''API key not configured'')
   \<and> verify_api_key None \<lparr>client = Some \<lparr>host = ''9.9.9.9'', port = 80\<rparr>\<rparr> None
      = Inl (HTTPException 500 ''API key not configured'')"
proof -
  let ?a = "\<lparr>host = ''9.9.9.9'', port = 80\<rparr>"
  have c: "client \<lparr>client = Some ?a\<rparr> = Some ?a" by simp
  have i: "host ?a \<notin> set dashboard_ips" by (simp add: dashboard_ips_def)
  have k: "\<not> truthy None" by simp
  show ?thesis
    using i k
      C2_no_secret_is_server_error
        [OF c i k, of "Some \<lparr>scheme = ''Bearer'', credentials = ''abc''\<rparr>"]
      C2_no_secret_is_server_error [OF c i k, of None]
    by simp
qed

text \<open>
  C3. For a request from an address that is not trusted, when a secret \<open>k\<close> is
  configured (a non-empty string), the guard allows the request exactly when a
  credential is presented and its token is the very string \<open>k\<close> (equality of strings,
  character by character: no case folding, no trimming); in every other case it ends
  with HTTP 403 "Invalid API key".
\<close>

theorem C3_credential_must_equal_secret:
  assumes "client req = Some c" and "host c \<notin> set dashboard_ips" and "k \<noteq> []"
  shows "verify_api_key (Some k) req creds =
           (if map_option credentials creds = Some k then Inr (Some k)
            else Inl (HTTPException 403 ''Invalid API key''))"
  using assms by (cases creds) (auto simp add: verify_api_key_def)

theorem C3_credential_must_equal_secret_witness:
  "''9.9.9.9'' \<notin> set dashboard_ips
   \<and> verify_api_key (Some ''abc'') \<lparr>client = Some \<lparr>host = ''9.9.9.9'', port = 80\<rparr>\<rparr>
        (Some \<lparr>scheme = ''Bearer'', credentials = ''abc''\<rparr>) = Inr (Some ''abc'')
   \<and> verify_api_key (Some ''abc'') \<lparr>client = Some \<lparr>host = ''9.9.9.9'', port = 80\<rparr>\<rparr>
        (Some \<lparr>scheme = ''Bearer'', credentials = ''ABC''\<rparr>)
      = Inl (HTTPException 403 ''Invalid API key'')
   \<and> verify_api_key (Some ''abc'') \<lparr>client = Some \<lparr>host = ''9.9.9.9'', port = 80\<rparr>\<rparr>
        (Some \<lparr>scheme = ''Bearer'', credentials = ''abc ''\<rparr>)
      = Inl (HTTPException 403 ''Invalid API key'')
   \<and> verify_api_key (Some ''abc'') \<lparr>client = Some \<lparr>host = ''9.9.9.9'', port = 80\<rparr>\<rparr> None
      = Inl (HTTPException 403 ''Invalid API key'')"
proof -
  let ?a = "\<lparr>host = ''9.9.9.9'', port = 80\<rparr>"
  have c: "client \<lparr>client = Some ?a\<rparr> = Some ?a" by simp
  have i: "host ?a \<notin> set dashboard_ips" by (simp add: dashboard_ips_def)
  have k: "''abc'' \<noteq> []" by simp
  show ?thesis
    using i
      C3_credential_must_equal_secret
        [OF c i k, of "Some \<lparr>scheme = ''Bearer'', credentials = ''abc''\<rparr>"]
      C3_credential_must_equal_secret
        [OF c i k, of "Some \<lparr>scheme = ''Bearer'', credentials = ''ABC''\<rparr>"]
      C3_credential_must_equal_secret
        [OF c i k, of "Some \<lparr>scheme = ''Bearer'', credentials = ''abc ''\<rparr>"]
      C3_credential_must_equal_secret [OF c i k, of None]
    by simp
qed

section \<open>Properties of the request checks\<close>

text \<open>
  C4. A create, filter, get-all or delete-all request whose user, agent and run
  identifiers are all empty or absent never reaches the engine: the handler leaves the
  state of the process, and with it the list of engine calls, as it was. The access
  guard runs first; when it lets the request through, the handler ends with HTTP 400
  and the message that an identifier is required, and when it does not, with the
  guard's own rejection.
\<close>

theorem C4_missing_identifiers_rejected:
  assumes "empty_or_absent u" and "empty_or_absent a" and "empty_or_absent r"
  shows "add_memory E key req
           \<lparr>messages = ms, MemoryCreate.user_id = u, MemoryCreate.agent_id = a, MemoryCreate.run_id = r, metadata = md\<rparr> creds s
         = (Inl (case verify_api_key key req creds of
                   Inl e \<Rightarrow> e
                 | Inr _ \<Rightarrow> HTTPException 400
                     ''At least one identifier (user_id, agent_id, run_id) is required.''), s)
       \<and> filter_memories_post E key req
           (Some \<lparr>MemoryFilter.user_id = u, MemoryFilter.agent_id = a, MemoryFilter.run_id = r, MemoryFilter.filters = fl\<rparr>) creds s
         = (Inl (case verify_api_key key req creds of
                   Inl e \<Rightarrow> e
                 | Inr _ \<Rightarrow> HTTPException 400 ''At least one identifier is required.''), s)
       \<and> get_all_memories E key req u r a creds s
         = (Inl (case verify_api_key key req creds of
                   Inl e \<Rightarrow> e
                 | Inr _ \<Rightarrow> HTTPException 400 ''At least one identifier is required.''), s)
       \<and> delete_all_memories E key req u r a creds s
         = (Inl (case verify_api_key key req creds of
                   Inl e \<Rightarrow> e
                 | Inr _ \<Rightarrow> HTTPException 400 ''At least one identifier is required.''), s)"
  using assms
  by (simp add: add_memory_def filter_memories_post_def get_all_memories_def
        delete_all_memories_def any_truthy3 split: sum.splits)

theorem C4_missing_identifiers_rejected_witness:
  "empty_or_absent None \<and> empty_or_absent (Some [])
   \<and> add_memory quiet_engine (Some ''abc'') dashboard_request
        \<lparr>messages = [\<lparr>role = ''user'', content = ''hi''\<rparr>], MemoryCreate.user_id = None,
         MemoryCreate.agent_id = Some [], MemoryCreate.run_id = None, metadata = None\<rparr>
        None started
      = (Inl (HTTPException 400
           ''At least one identifier (user_id, agent_id, run_id) is required.''), started)
   \<and> delete_all_memories quiet_engine (Some ''abc'') dashboard_request None None (Some [])
        None started
      = (Inl (HTTPException 400 ''At least one identifier is required.''), started)"
proof -
  have n: "empty_or_absent None" and e: "empty_or_absent (Some [])"
    by (simp_all add: empty_or_absent_def)
  show ?thesis
    using n e
      C4_missing_identifiers_rejected [OF n e n, of quiet_engine "Some ''abc''" dashboard_request
            "[\<lparr>role = ''user'', content = ''hi''\<rparr>]" None None started]
    by (simp add: dashboard_request_allowed)
qed

text \<open>
  C5. A POST filter request without a body is handled exactly as one whose body
  carries no identifier: the same outcome and the same state. Once the guard has let
  it through, that outcome is HTTP 400 "At least one identifier is required."; no
  attribute of the absent body is read.
\<close>

theorem C5_absent_filter_body_is_no_identifiers:
  "filter_memories_post E key req None creds s
     = filter_memories_post E key req
         (Some \<lparr>MemoryFilter.user_id = None, MemoryFilter.agent_id = None, MemoryFilter.run_id = None, MemoryFilter.filters = fl\<rparr>) creds s
   \<and> filter_memories_post E key req None creds s
     = (Inl (case verify_api_key key req creds of
               Inl e \<Rightarrow> e
             | Inr _ \<Rightarrow> HTTPException 400 ''At least one identifier is required.''), s)"
  by (simp add: filter_memories_post_def any_truthy_def split: sum.splits)

text \<open>
  C6, as the code has it. \<open>SearchRequest.query\<close> is a plain \<open>str\<close> and
  \<open>search_memories\<close> makes no test on it, so a search request is not rejected for an
  empty query: once the guard has let the request through, the handler calls the
  engine's \<open>search\<close> exactly once, with the query as it came, and never ends with
  HTTP 400.
\<close>

theorem C6_search_query_forwarded:
  assumes "verify_api_key key req creds = Inr g"
  shows "(\<exists>params. calls (snd (search_memories E key req sr creds s))
                     = calls s @ [Memory_search (query sr) params])
         \<and> (\<forall>d. fst (search_memories E key req sr creds s) \<noteq> Inl (HTTPException 400 d))"
  using assms
  by (simp add: search_memories_def try_engine_calls try_engine_not_400)

theorem C6_search_query_forwarded_witness:
  "verify_api_key None dashboard_request None = Inr None
   \<and> (\<exists>params. calls (snd (search_memories quiet_engine None dashboard_request
                              \<lparr>query = [], SearchRequest.user_id = None,
                               SearchRequest.run_id = None, SearchRequest.agent_id = None,
                               SearchRequest.filters = None\<rparr> None started))
                  = [Memory_search [] params])
   \<and> (\<forall>d. fst (search_memories quiet_engine None dashboard_request
                   \<lparr>query = [], SearchRequest.user_id = None,
                    SearchRequest.run_id = None, SearchRequest.agent_id = None,
                    SearchRequest.filters = None\<rparr> None started)
             \<noteq> Inl (HTTPException 400 d))"
proof -
  have g: "verify_api_key None dashboard_request None = Inr None"
    by (rule dashboard_request_allowed)
  have "calls started = []"
    by (simp add: started_def)
  then show ?thesis
    using g
      C6_search_query_forwarded [OF g, of quiet_engine
            "\<lparr>query = [], SearchRequest.user_id = None, SearchRequest.run_id = None,
              SearchRequest.agent_id = None, SearchRequest.filters = None\<rparr>" started]
    by simp
qed

text \<open>
  C6 as stated fails: a search with the empty query, from a dashboard address, calls
  the engine's \<open>search\<close> with the empty query and returns its result.
\<close>

theorem C6_empty_query_reaches_engine:
  "search_memories quiet_engine None dashboard_request
     \<lparr>query = [], SearchRequest.user_id = None, SearchRequest.run_id = None,
      SearchRequest.agent_id = None, SearchRequest.filters = None\<rparr> None started
   = (Inr (Plain PNone), started\<lparr>calls := [Memory_search [] []]\<rparr>)"
  by (simp add: search_memories_def verify_api_key_def dashboard_request_def
        dashboard_ips_def try_engine_def invoke_def quiet_engine_def started_def
        safe_dump_SearchRequest_def dump_str_def dump_dict_def)

section \<open>Properties of the dispatch to the engine\<close>

text \<open>
  C7, as the code has it. For a request that the guard lets through and that carries
  the identifier its handler requires, every handler makes exactly one engine call.
  The keyword arguments of that call are exactly the non-null ones among the fields the
  handler passes on, with their values unchanged: the identifiers and the metadata for
  \<open>add\<close>, the identifiers and the filters for \<open>search\<close>, and the three identifiers
  alone for \<open>get_all\<close> and \<open>delete_all\<close>, so that the \<open>filters\<close> mapping of a POST filter
  body is not passed on. An identifier that is the empty string is not null and is
  passed on.
\<close>

theorem C7_non_null_fields_forwarded_once:
  assumes guard: "verify_api_key key req creds = Inr g"
      and ids: "\<not> (empty_or_absent u \<and> empty_or_absent a \<and> empty_or_absent r)"
  shows
    "(\<exists>params.
        calls (snd (add_memory E key req
                 \<lparr>messages = ms, MemoryCreate.user_id = u, MemoryCreate.agent_id = a,
                  MemoryCreate.run_id = r, metadata = md\<rparr> creds s))
          = calls s @ [Memory_add (map safe_dump_Message ms) params]
        \<and> forwards_exactly
            [(''user_id'', map_option PStr u), (''agent_id'', map_option PStr a),
             (''run_id'', map_option PStr r), (''metadata'', map_option PDict md)] params)
     \<and> (\<exists>params.
        calls (snd (search_memories E key req sr creds s))
          = calls s @ [Memory_search (query sr) params]
        \<and> forwards_exactly
            [(''user_id'', map_option PStr (SearchRequest.user_id sr)),
             (''run_id'', map_option PStr (SearchRequest.run_id sr)),
             (''agent_id'', map_option PStr (SearchRequest.agent_id sr)),
             (''filters'', map_option PDict (SearchRequest.filters sr))] params)
     \<and> (\<exists>params.
        calls (snd (filter_memories_post E key req
                 (Some \<lparr>MemoryFilter.user_id = u, MemoryFilter.agent_id = a,
                        MemoryFilter.run_id = r, MemoryFilter.filters = fl\<rparr>) creds s))
          = calls s @ [Memory_get_all params]
        \<and> forwards_exactly
            [(''user_id'', map_option PStr u), (''run_id'', map_option PStr r),
             (''agent_id'', map_option PStr a)] params)
     \<and> (\<exists>params.
        calls (snd (get_all_memories E key req u r a creds s))
          = calls s @ [Memory_get_all params]
        \<and> forwards_exactly
            [(''user_id'', map_option PStr u), (''run_id'', map_option PStr r),
             (''agent_id'', map_option PStr a)] params)
     \<and> (\<exists>params.
        calls (snd (delete_all_memories E key req u r a creds s))
          = calls s @ [Memory_delete_all params]
        \<and> forwards_exactly
            [(''user_id'', map_option PStr u), (''run_id'', map_option PStr r),
             (''agent_id'', map_option PStr a)] params)
     \<and> calls (snd (get_memory E key req memory_id creds s)) = calls s @ [Memory_get memory_id]
     \<and> calls (snd (update_memory E key req memory_id data creds s))
          = calls s @ [Memory_update memory_id data]
     \<and> calls (snd (memory_history E key req memory_id creds s))
          = calls s @ [Memory_history memory_id]
     \<and> calls (snd (delete_memory E key req memory_id creds s))
          = calls s @ [Memory_delete memory_id]
     \<and> calls (snd (reset_memory E key req creds s)) = calls s @ [Memory_reset]
     \<and> calls (snd (set_config E key req config creds s))
          = calls s @ [Memory_from_config config]"
proof -
  let ?mc = "\<lparr>messages = ms, MemoryCreate.user_id = u, MemoryCreate.agent_id = a,
              MemoryCreate.run_id = r, metadata = md\<rparr>"
  let ?f = "\<lparr>MemoryFilter.user_id = u, MemoryFilter.agent_id = a,
             MemoryFilter.run_id = r, MemoryFilter.filters = fl\<rparr>"
  have mc: "\<not> (empty_or_absent (MemoryCreate.user_id ?mc)
               \<and> empty_or_absent (MemoryCreate.agent_id ?mc)
               \<and> empty_or_absent (MemoryCreate.run_id ?mc))"
    using ids by simp
  have f: "\<not> (empty_or_absent (MemoryFilter.user_id ?f)
              \<and> empty_or_absent (MemoryFilter.agent_id ?f)
              \<and> empty_or_absent (MemoryFilter.run_id ?f))"
    using ids by simp
  note a = add_memory_forwards [OF guard mc, of E s, simplified]
  note b = filter_memories_post_forwards [OF guard f, of E s, simplified]
  show ?thesis
    using a b search_memories_forwards [OF guard, of E sr s]
      get_all_memories_forwards [OF guard ids, of E s]
      delete_all_memories_forwards [OF guard ids, of E s]
    by (intro conjI)
       (simp_all add: by_id_handlers_one_call [OF guard] set_config_one_call [OF guard])
qed

theorem C7_non_null_fields_forwarded_once_witness:
  "verify_api_key None dashboard_request None = Inr None
   \<and> \<not> (empty_or_absent (Some ''u'') \<and> empty_or_absent None \<and> empty_or_absent (Some []))
   \<and> calls (snd (add_memory quiet_engine None dashboard_request
                   \<lparr>messages = [\<lparr>role = ''user'', content = ''hi''\<rparr>],
                    MemoryCreate.user_id = Some ''u'', MemoryCreate.agent_id = None,
                    MemoryCreate.run_id = Some [], metadata = None\<rparr> None started))
       = [Memory_add [[(''role'', PStr ''user''), (''content'', PStr ''hi'')]]
            [(''user_id'', PStr ''u''), (''run_id'', PStr [])]]
   \<and> calls (snd (get_all_memories quiet_engine None dashboard_request
                   (Some ''u'') (Some []) None None started))
       = [Memory_get_all [(''user_id'', PStr ''u''), (''run_id'', PStr [])]]
   \<and> calls (snd (set_config quiet_engine None dashboard_request [] None started))
       = [Memory_from_config []]"
proof -
  have g: "verify_api_key None dashboard_request None = Inr None"
    by (rule dashboard_request_allowed)
  have i: "\<not> (empty_or_absent (Some ''u'') \<and> empty_or_absent None \<and> empty_or_absent (Some []))"
    by (simp add: empty_or_absent_def)
  have c: "calls started = []"
    by (simp add: started_def)
  show ?thesis
    using g i c
      C7_non_null_fields_forwarded_once [OF g i, where E = quiet_engine and s = started
            and ms = "[\<lparr>role = ''user'', content = ''hi''\<rparr>]" and md = None
            and config = "[]"]
    by (simp add: forwards_exactly_def safe_dump_Message_def)
qed

text \<open>
  C7 as stated fails: a POST filter body with a user identifier and a \<open>filters\<close>
  mapping leads to \<open>get_all(user_id=...)\<close>, which does not hold the non-null
  \<open>filters\<close> field.
\<close>

theorem C7_filter_mapping_not_forwarded:
  "calls (snd (filter_memories_post quiet_engine None dashboard_request
                 (Some \<lparr>MemoryFilter.user_id = Some ''u'', MemoryFilter.agent_id = None,
                        MemoryFilter.run_id = None,
                        MemoryFilter.filters = Some [(''k'', PStr ''v'')]\<rparr>) None started))
     = [Memory_get_all [(''user_id'', PStr ''u'')]]
   \<and> \<not> forwards_exactly
         [(''user_id'', Some (PStr ''u'')), (''agent_id'', None), (''run_id'', None),
          (''filters'', Some (PDict [(''k'', PStr ''v'')]))]
         [(''user_id'', PStr ''u'')]"
  by (simp add: filter_memories_post_def verify_api_key_def dashboard_request_def
        dashboard_ips_def try_engine_def invoke_def quiet_engine_def started_def
        any_truthy_def identifier_params_def dump_str_def forwards_exactly_def)

text \<open>
  C8. \<open>set_config\<close> calls \<open>Memory.from_config\<close> outside any \<open>try\<close>: when the engine
  raises there, the exception leaves the handler as it is, and is not turned into an
  \<open>HTTPException\<close> with status 500 and the engine's message as detail, as
  \<open>engine_exception_becomes_500\<close> shows the other ten handlers do. The engine is
  called once.
\<close>

theorem C8_set_config_engine_exception_escapes:
  "set_config raising_engine None dashboard_request
     [(''vector_store'', PDict [(''provider'', PStr ''nonexistent'')])] None started
   = (Inl (Exception ''boom''),
      started\<lparr>calls := [Memory_from_config
                           [(''vector_store'', PDict [(''provider'', PStr ''nonexistent'')])]]\<rparr>)"
  by (simp add: set_config_def verify_api_key_def dashboard_request_def dashboard_ips_def
        from_config_def raising_engine_def started_def)

text \<open>
  C10. When \<open>Memory.from_config\<close> raises on the configuration supplied,
  \<open>set_config\<close> leaves \<open>MEMORY_INSTANCE\<close> as it was and the request fails, whatever
  the guard decides; an engine operation invoked afterwards is performed by the
  instance that was live before.
\<close>

theorem C10_failed_reconfiguration_keeps_instance:
  assumes "construct E config (world s) = (Inl e, w')"
  shows "MEMORY_INSTANCE (snd (set_config E key req config creds s)) = MEMORY_INSTANCE s
         \<and> (\<exists>x. fst (set_config E key req config creds s) = Inl x)
         \<and> (\<forall>c. fst (invoke E c (snd (set_config E key req config creds s)))
                  = fst (perform E (MEMORY_INSTANCE s) c
                           (world (snd (set_config E key req config creds s)))))"
proof -
  let ?s' = "snd (set_config E key req config creds s)"
  have keep: "MEMORY_INSTANCE ?s' = MEMORY_INSTANCE s"
    using assms by (simp add: set_config_def from_config_def split: sum.splits)
  have fails: "\<exists>x. fst (set_config E key req config creds s) = Inl x"
    using assms by (simp add: set_config_def from_config_def split: sum.splits)
  have later: "fst (invoke E c ?s') = fst (perform E (MEMORY_INSTANCE s) c (world ?s'))" for c
    using keep by (simp add: invoke_def split: prod.splits)
  show ?thesis
    using keep fails later by blast
qed

theorem C10_failed_reconfiguration_keeps_instance_witness:
  "construct raising_engine [] (world started) = (Inl ''boom'', ())
   \<and> MEMORY_INSTANCE (snd (set_config raising_engine None dashboard_request [] None started)) = 0
   \<and> (\<exists>x. fst (set_config raising_engine None dashboard_request [] None started) = Inl x)"
proof -
  have h: "construct raising_engine [] (world started) = (Inl ''boom'', ())"
    by (simp add: raising_engine_def)
  have m: "MEMORY_INSTANCE started = 0"
    by (simp add: started_def)
  show ?thesis
    using h m C10_failed_reconfiguration_keeps_instance [OF h, of None dashboard_request None]
    by simp
qed

end
